theory Spec2Isabelle
  imports Complex_Main "HOL-Library.Char_ord" "HOL-Library.List_Lexorder"
begin

section \<open>Data model\<close>

text \<open>
  A parsed JSON value, as Python's \<^verbatim>\<open>json\<close> module delivers it: \<^verbatim>\<open>None\<close>, a bool,
  an int, a float, a str, a list or a dict. A dict is an association list in insertion
  order; its keys are distinct. Floats are idealised as reals.
\<close>

datatype json =
    JNull
  | JBool bool
  | JNum int
  | JFloat real
  | JStr string
  | JList "json list"
  | JObj "(string \<times> json) list"

text \<open>The exceptions that reach an \<^verbatim>\<open>except Exception\<close> clause of \<^verbatim>\<open>process_item\<close>.\<close>

datatype error =
    FetchFailed string    \<comment> \<open>\<^verbatim>\<open>Exception(f"Failed after {MAX_RETRIES} attempts: {endpoint}")\<close>\<close>
  | ExpectedList json     \<comment> \<open>\<^verbatim>\<open>Exception(f"Expected list, got {type(data)}")\<close>\<close>
  | AttributeError json   \<comment> \<open>\<^verbatim>\<open>.get\<close> called on a value that is not a dict\<close>
  | TypeError json        \<comment> \<open>\<^verbatim>\<open>>=\<close> between a value that is not a str and a str\<close>
  | UnicodeDecodeError    \<comment> \<open>\<^verbatim>\<open>response.json()\<close> on a body whose bytes are no text\<close>

text \<open>
  What \<^verbatim>\<open>response.json()\<close> makes of the body of a response: a JSON value; or
  \<^verbatim>\<open>json.JSONDecodeError\<close>, when the text is not JSON; or \<^verbatim>\<open>UnicodeDecodeError\<close>,
  when the bytes are no text, which is not a \<^verbatim>\<open>json.JSONDecodeError\<close>.
\<close>

datatype json_body =
    Json json
  | NotJson
  | NotText

text \<open>
  One HTTP response: the status code, the two rate-limit headers (absent, or already an
  integer) and the body.
\<close>

record response =
  status_code :: int
  x_ratelimit_remaining :: "int option"
  x_ratelimit_reset :: "int option"
  body :: json_body

datatype outcome =
    Response response
  | TimeoutException
  | RequestError

text \<open>
  What the program cannot decide: the outcome of the k-th HTTP request (counted from 0)
  for the endpoint it asks, the k-th value of \<^verbatim>\<open>random.random()\<close>, and the k-th
  reading of \<^verbatim>\<open>int(time.time())\<close>.
\<close>

record env =
  server :: "nat \<Rightarrow> string \<Rightarrow> outcome"
  draws :: "nat \<Rightarrow> real"
  clock :: "nat \<Rightarrow> int"

text \<open>
  What the client does to the outside, in order: a GET request, a wait of
  \<^verbatim>\<open>backoff_sleep\<close>, a wait of one of the two rate-limit functions.
\<close>

datatype event =
    Get string
  | Backoff real
  | RateWait int

fun is_Get :: "event \<Rightarrow> bool" where
  "is_Get (Get _) = True"
| "is_Get _ = False"


text \<open>
  The state of a \<^verbatim>\<open>GitHubClient\<close>: the two tracked rate-limit values, and what it has
  done so far (the events, the number of random draws and of clock readings).
\<close>

record client =
  rate_remaining :: "int option"
  rate_reset :: "int option"
  trace :: "event list"
  n_draws :: nat
  n_clock :: nat

definition num_gets :: "client \<Rightarrow> nat" where
  "num_gets cl = length (filter is_Get (trace cl))"

section \<open>Constants\<close>

definition REPO :: string where
  "REPO = ''rust-lang/rust''"

definition CUTOFF_DATE :: string where
  "CUTOFF_DATE = ''2016-01-01T00:00:00Z''"

definition RATE_LIMIT_BUFFER :: int where
  "RATE_LIMIT_BUFFER = 100"

definition MAX_RETRIES :: nat where
  "MAX_RETRIES = 5"

definition BASE_BACKOFF :: real where
  "BASE_BACKOFF = 2"

definition JITTER :: real where
  "JITTER = 1 / 4"

section \<open>Formatting numbers\<close>

definition digit_char :: "nat \<Rightarrow> char" where
  "digit_char d = ''0123456789'' ! d"

fun str_nat :: "nat \<Rightarrow> string" where
  "str_nat n = (if n < 10 then [digit_char n] else str_nat (n div 10) @ [digit_char (n mod 10)])"

declare str_nat.simps [simp del]

text \<open>\<^verbatim>\<open>str(n)\<close> and \<^verbatim>\<open>f"{n}"\<close> of an int.\<close>

definition str_int :: "int \<Rightarrow> string" where
  "str_int n = (if n < 0 then CHR ''-'' # str_nat (nat (- n)) else str_nat (nat n))"

text \<open>\<^verbatim>\<open>f"{n:06d}"\<close>: the sign counts in the width of 6, the zeros come after it.\<close>

definition zfill :: "nat \<Rightarrow> string \<Rightarrow> string" where
  "zfill w s = replicate (w - length s) (CHR ''0'') @ s"

definition padded :: "int \<Rightarrow> string" where
  "padded n = (if n < 0 then CHR ''-'' # zfill 5 (str_nat (nat (- n))) else zfill 6 (str_nat (nat n)))"

section \<open>The client\<close>

text \<open>
  \<^verbatim>\<open>backoff_sleep\<close>: the duration is computed from the next random draw and handed to
  \<^verbatim>\<open>time.sleep\<close>.
\<close>

definition backoff_time :: "env \<Rightarrow> nat \<Rightarrow> nat \<Rightarrow> real" where
  "backoff_time e k attempt =
     (let base = BASE_BACKOFF ^ attempt;
          jitter = base * JITTER * (2 * draws e k - 1)
      in base + jitter)"

definition backoff_sleep :: "env \<Rightarrow> nat \<Rightarrow> client \<Rightarrow> client" where
  "backoff_sleep e attempt cl =
     (let sleep_time = backoff_time e (n_draws cl) attempt
      in cl\<lparr>trace := trace cl @ [Backoff sleep_time], n_draws := Suc (n_draws cl)\<rparr>)"

definition update_rate_limit :: "response \<Rightarrow> client \<Rightarrow> client" where
  "update_rate_limit r cl =
     (let cl1 = (case x_ratelimit_remaining r of
                   Some v \<Rightarrow> cl\<lparr>rate_remaining := Some v\<rparr>
                 | None \<Rightarrow> cl)
      in case x_ratelimit_reset r of
           Some v \<Rightarrow> cl1\<lparr>rate_reset := Some v\<rparr>
         | None \<Rightarrow> cl1)"

text \<open>\<^verbatim>\<open>if self.rate_reset:\<close> is false for \<^verbatim>\<open>None\<close> and for 0.\<close>

definition check_rate_limit :: "env \<Rightarrow> client \<Rightarrow> client" where
  "check_rate_limit e cl =
     (case rate_remaining cl of
        None \<Rightarrow> cl
      | Some remaining \<Rightarrow>
          if remaining < RATE_LIMIT_BUFFER then
            (case rate_reset cl of
               None \<Rightarrow> cl
             | Some reset \<Rightarrow>
                 if reset = 0 then cl
                 else (let now = clock e (n_clock cl);
                           sleep_time = reset - now + 5;
                           cl1 = cl\<lparr>n_clock := Suc (n_clock cl)\<rparr>
                       in if sleep_time > 0 then cl1\<lparr>trace := trace cl1 @ [RateWait sleep_time]\<rparr>
                          else cl1))
          else cl)"

definition handle_rate_limit_response :: "env \<Rightarrow> client \<Rightarrow> client" where
  "handle_rate_limit_response e cl =
     (case rate_reset cl of
        None \<Rightarrow> cl
      | Some reset \<Rightarrow>
          if reset = 0 then cl
          else (let now = clock e (n_clock cl);
                    sleep_time = reset - now + 10;
                    cl1 = cl\<lparr>n_clock := Suc (n_clock cl)\<rparr>
                in if sleep_time > 0 then cl1\<lparr>trace := trace cl1 @ [RateWait sleep_time]\<rparr>
                   else cl1))"

text \<open>
  One pass through the body of the \<^verbatim>\<open>for attempt in range(MAX_RETRIES)\<close> loop of
  \<^verbatim>\<open>fetch\<close>: it returns a value (\<^verbatim>\<open>None\<close> is \<open>JNull\<close>), goes on to the next attempt,
  or lets an exception pass that none of the \<^verbatim>\<open>except\<close> clauses catches.
\<close>

datatype attempt_result =
    Returned json client
  | NextAttempt client
  | Raised error client

definition fetch_attempt :: "env \<Rightarrow> string \<Rightarrow> nat \<Rightarrow> client \<Rightarrow> attempt_result" where
  "fetch_attempt e endpoint attempt cl =
     (let out = server e (num_gets cl) endpoint;
          cl1 = cl\<lparr>trace := trace cl @ [Get endpoint]\<rparr>
      in case out of
           TimeoutException \<Rightarrow> NextAttempt (backoff_sleep e attempt cl1)
         | RequestError \<Rightarrow> NextAttempt (backoff_sleep e attempt cl1)
         | Response r \<Rightarrow>
             (let cl2 = update_rate_limit r cl1
              in if status_code r = 404 then Returned JNull cl2
                 else if status_code r = 403 \<or> status_code r = 429
                   then NextAttempt (handle_rate_limit_response e cl2)
                 else if status_code r \<noteq> 200
                   then NextAttempt (backoff_sleep e attempt cl2)
                 else (let cl3 = check_rate_limit e cl2
                       in case body r of
                            Json j \<Rightarrow> Returned j cl3
                          | NotJson \<Rightarrow> NextAttempt (backoff_sleep e attempt cl3)
                          | NotText \<Rightarrow> Raised UnicodeDecodeError cl3)))"

fun fetch_attempts :: "env \<Rightarrow> string \<Rightarrow> nat list \<Rightarrow> client \<Rightarrow> (error + json) \<times> client" where
  "fetch_attempts e endpoint [] cl = (Inl (FetchFailed endpoint), cl)"
| "fetch_attempts e endpoint (attempt # rest) cl =
     (case fetch_attempt e endpoint attempt cl of
        Returned j cl' \<Rightarrow> (Inr j, cl')
      | NextAttempt cl' \<Rightarrow> fetch_attempts e endpoint rest cl'
      | Raised err cl' \<Rightarrow> (Inl err, cl'))"

definition fetch :: "env \<Rightarrow> string \<Rightarrow> client \<Rightarrow> (error + json) \<times> client" where
  "fetch e endpoint cl = fetch_attempts e endpoint [0..<MAX_RETRIES] cl"

text \<open>
  \<^verbatim>\<open>fetch_paginated\<close>: the \<^verbatim>\<open>while True\<close> loop, with the page number and the items
  collected so far. It need not end: \<open>None\<close> is a run that never returns.
\<close>

definition page_url :: "string \<Rightarrow> nat \<Rightarrow> string" where
  "page_url endpoint page =
     (let sep = (if CHR ''?'' \<in> set endpoint then ''&'' else ''?'')
      in endpoint @ sep @ ''per_page=100&page='' @ str_nat page)"

partial_function (option) fetch_pages ::
  "env \<Rightarrow> string \<Rightarrow> nat \<Rightarrow> json list \<Rightarrow> client \<Rightarrow> ((error + json list) \<times> client) option" where
  "fetch_pages e endpoint page all_items cl =
     (case fetch e (page_url endpoint page) cl of
        (Inl err, cl') \<Rightarrow> Some (Inl err, cl')
      | (Inr data, cl') \<Rightarrow>
          (case data of
             JNull \<Rightarrow> Some (Inr all_items, cl')
           | JList xs \<Rightarrow>
               if length xs = 0 then Some (Inr all_items, cl')
               else if length xs < 100 then Some (Inr (all_items @ xs), cl')
               else fetch_pages e endpoint (page + 1) (all_items @ xs) cl'
           | _ \<Rightarrow> Some (Inl (ExpectedList data), cl')))"

declare fetch_pages.simps [code]

definition fetch_paginated :: "env \<Rightarrow> string \<Rightarrow> client \<Rightarrow> ((error + json list) \<times> client) option" where
  "fetch_paginated e endpoint cl = fetch_pages e endpoint 1 [] cl"

section \<open>Cross-reference extraction\<close>

text \<open>Python's truth value of a JSON value, as \<^verbatim>\<open>if x\<close> and \<^verbatim>\<open>x or y\<close> take it.\<close>

fun truthy :: "json \<Rightarrow> bool" where
  "truthy JNull = False"
| "truthy (JBool b) = b"
| "truthy (JNum n) = (n \<noteq> 0)"
| "truthy (JFloat r) = (r \<noteq> 0)"
| "truthy (JStr s) = (s \<noteq> [])"
| "truthy (JList xs) = (xs \<noteq> [])"
| "truthy (JObj d) = (d \<noteq> [])"

text \<open>\<^verbatim>\<open>d.get(k)\<close>, \<^verbatim>\<open>d.get(k, default)\<close>, \<^verbatim>\<open>k in d\<close> and \<^verbatim>\<open>d[k] = v\<close> of a dict.\<close>

definition dict_get :: "(string \<times> json) list \<Rightarrow> string \<Rightarrow> json" where
  "dict_get d k = (case map_of d k of None \<Rightarrow> JNull | Some v \<Rightarrow> v)"

definition dict_get_default :: "(string \<times> json) list \<Rightarrow> string \<Rightarrow> json \<Rightarrow> json" where
  "dict_get_default d k dflt = (case map_of d k of None \<Rightarrow> dflt | Some v \<Rightarrow> v)"

definition dict_contains :: "(string \<times> json) list \<Rightarrow> string \<Rightarrow> bool" where
  "dict_contains d k = (map_of d k \<noteq> None)"

fun dict_set :: "(string \<times> json) list \<Rightarrow> string \<Rightarrow> json \<Rightarrow> (string \<times> json) list" where
  "dict_set [] k v = [(k, v)]"
| "dict_set ((k', v') # d) k v = (if k' = k then (k, v) # d else (k', v') # dict_set d k v)"

text \<open>\<^verbatim>\<open>x or {}\<close>\<close>

definition or_empty_dict :: "json \<Rightarrow> json" where
  "or_empty_dict x = (if truthy x then x else JObj [])"

text \<open>
  The body of the \<^verbatim>\<open>for event in timeline\<close> loop: the entry it appends, if any.
  \<^verbatim>\<open>source.get\<close> and \<^verbatim>\<open>issue.get\<close> raise on a value that is not a dict.
\<close>

definition xref_of_event :: "json \<Rightarrow> error + json option" where
  "xref_of_event event =
     (case event of
        JObj ev \<Rightarrow>
          (let event_type = dict_get ev ''event'';
               actor = dict_get ev ''actor'';
               actor_login = (case actor of JObj a \<Rightarrow> dict_get a ''login'' | _ \<Rightarrow> JNull)
           in if event_type = JStr ''cross-referenced'' then
                (let source = or_empty_dict (dict_get ev ''source'')
                 in case source of
                      JObj src \<Rightarrow>
                        (let issue = or_empty_dict (dict_get src ''issue'')
                         in case issue of
                              JObj iss \<Rightarrow>
                                if truthy (dict_get iss ''number'') then
                                  Inr (Some (JObj
                                    [(''event'', JStr ''cross-referenced''),
                                     (''from'', dict_get iss ''number''),
                                     (''type'', dict_get_default src ''type'' (JStr ''issue'')),
                                     (''actor'', actor_login),
                                     (''date'', dict_get ev ''created_at'')]))
                                else Inr None
                            | _ \<Rightarrow> Inl (AttributeError issue))
                    | _ \<Rightarrow> Inl (AttributeError source))
              else if event_type = JStr ''referenced'' then
                (let commit_id = dict_get ev ''commit_id''
                 in if truthy commit_id then
                      Inr (Some (JObj
                        [(''event'', JStr ''referenced''),
                         (''commit'', commit_id),
                         (''actor'', actor_login),
                         (''date'', dict_get ev ''created_at'')]))
                    else Inr None)
              else Inr None)
      | _ \<Rightarrow> Inr None)"

fun extract_loop :: "json list \<Rightarrow> json list \<Rightarrow> error + json list" where
  "extract_loop [] xrefs = Inr xrefs"
| "extract_loop (event # rest) xrefs =
     (case xref_of_event event of
        Inl err \<Rightarrow> Inl err
      | Inr None \<Rightarrow> extract_loop rest xrefs
      | Inr (Some x) \<Rightarrow> extract_loop rest (xrefs @ [x]))"

definition extract_xrefs :: "json list \<Rightarrow> error + json list" where
  "extract_xrefs timeline = extract_loop timeline []"

section \<open>Markers\<close>

text \<open>
  What a marker file holds: nothing, a JSON payload, or a failure record (the error and
  the component name; the timestamp of the record is not modelled).
\<close>

datatype content =
    Empty
  | Payload json
  | FailedRecord error string

type_synonym fs = "string \<Rightarrow> content option"

definition path_exists :: "fs \<Rightarrow> string \<Rightarrow> bool" where
  "path_exists files p = (files p \<noteq> None)"

definition write_failed :: "string \<Rightarrow> error \<Rightarrow> string \<Rightarrow> fs \<Rightarrow> fs" where
  "write_failed path err component files = files(path \<mapsto> FailedRecord err component)"

definition ITEMS_DIR :: string where
  "ITEMS_DIR = ''items''"

definition in_dir :: "string \<Rightarrow> string \<Rightarrow> string" where
  "in_dir d name = d @ ''/'' @ name"

definition path_404 :: "int \<Rightarrow> string" where
  "path_404 num = in_dir ITEMS_DIR (padded num @ ''.404'')"

definition path_skip :: "int \<Rightarrow> string" where
  "path_skip num = in_dir ITEMS_DIR (padded num @ ''.skip'')"

definition path_main :: "int \<Rightarrow> string" where
  "path_main num = in_dir ITEMS_DIR (padded num @ ''-main.json'')"

definition path_main_failed :: "int \<Rightarrow> string" where
  "path_main_failed num = in_dir ITEMS_DIR (padded num @ ''-main.failed'')"

definition path_comments :: "int \<Rightarrow> string" where
  "path_comments num = in_dir ITEMS_DIR (padded num @ ''-comments.json'')"

definition path_comments_failed :: "int \<Rightarrow> string" where
  "path_comments_failed num = in_dir ITEMS_DIR (padded num @ ''-comments.failed'')"

definition path_timeline :: "int \<Rightarrow> string" where
  "path_timeline num = in_dir ITEMS_DIR (padded num @ ''-timeline.json'')"

definition path_timeline_failed :: "int \<Rightarrow> string" where
  "path_timeline_failed num = in_dir ITEMS_DIR (padded num @ ''-timeline.failed'')"

definition path_xrefs :: "int \<Rightarrow> string" where
  "path_xrefs num = in_dir ITEMS_DIR (padded num @ ''-xrefs.json'')"

definition path_xrefs_failed :: "int \<Rightarrow> string" where
  "path_xrefs_failed num = in_dir ITEMS_DIR (padded num @ ''-xrefs.failed'')"

definition main_endpoint :: "int \<Rightarrow> string" where
  "main_endpoint num = ''/repos/'' @ REPO @ ''/issues/'' @ str_int num"

definition comments_endpoint :: "int \<Rightarrow> string" where
  "comments_endpoint num = ''/repos/'' @ REPO @ ''/issues/'' @ str_int num @ ''/comments''"

definition timeline_endpoint :: "int \<Rightarrow> string" where
  "timeline_endpoint num = ''/repos/'' @ REPO @ ''/issues/'' @ str_int num @ ''/timeline''"

section \<open>The record driver\<close>

record stats =
  fetched :: int
  skip_404 :: int
  skip_date :: int
  skip_exists :: int
  failed :: int

definition stats0 :: stats where
  "stats0 = \<lparr>fetched = 0, skip_404 = 0, skip_date = 0, skip_exists = 0, failed = 0\<rparr>"

text \<open>
  A block of \<^verbatim>\<open>process_item\<close> either executes \<^verbatim>\<open>return stats\<close> or falls through to
  the next block. The console log and \<^verbatim>\<open>status_parts\<close>, which only feeds it, are left out.
\<close>

datatype 'a flow =
    Return 'a
  | Proceed 'a

text \<open>
  The \<^verbatim>\<open># Main\<close> block, entered when \<^verbatim>\<open>do_main\<close> holds. \<^verbatim>\<open>data.get\<close> raises on a
  value that is not a dict, and \<^verbatim>\<open>>=\<close> on a timestamp that is not a str. Two strings
  are compared as Python compares them: character by character, a proper prefix first.
\<close>

definition main_step :: "env \<Rightarrow> int \<Rightarrow> stats \<times> client \<times> fs \<Rightarrow> (stats \<times> client \<times> fs) flow" where
  "main_step e num s =
     (case s of (st, cl, files) \<Rightarrow>
        if path_exists files (path_main num) then
          Proceed (st\<lparr>skip_exists := skip_exists st + 1\<rparr>, cl, files)
        else
          (case fetch e (main_endpoint num) cl of
             (Inl err, cl') \<Rightarrow>
               Return (st\<lparr>failed := failed st + 1\<rparr>, cl',
                       write_failed (path_main_failed num) err ''main'' files)
           | (Inr data, cl') \<Rightarrow>
               (case data of
                  JNull \<Rightarrow> Return (st\<lparr>skip_404 := 1\<rparr>, cl', files(path_404 num \<mapsto> Empty))
                | JObj d \<Rightarrow>
                    (case dict_get_default d ''created_at'' (JStr []) of
                       JStr created_at \<Rightarrow>
                         if created_at \<ge> CUTOFF_DATE then
                           Return (st\<lparr>skip_date := 1\<rparr>, cl', files(path_skip num \<mapsto> Empty))
                         else
                           (let item_type = (if dict_contains d ''pull_request'' then ''pr'' else ''issue'');
                                data' = dict_set d ''_meta'' (JObj [(''type'', JStr item_type)])
                            in Proceed (st\<lparr>fetched := fetched st + 1\<rparr>, cl',
                                 (files(path_main num \<mapsto> Payload (JObj data')))
                                   (path_main_failed num := None)))
                     | v \<Rightarrow>
                         Return (st\<lparr>failed := failed st + 1\<rparr>, cl',
                                 write_failed (path_main_failed num) (TypeError v) ''main'' files))
                | _ \<Rightarrow>
                    Return (st\<lparr>failed := failed st + 1\<rparr>, cl',
                            write_failed (path_main_failed num) (AttributeError data) ''main'' files))))"

text \<open>The \<^verbatim>\<open># Comments\<close> block, entered when \<^verbatim>\<open>do_comments\<close> holds.\<close>

definition comments_step :: "env \<Rightarrow> int \<Rightarrow> stats \<times> client \<times> fs \<Rightarrow> (stats \<times> client \<times> fs) option" where
  "comments_step e num s =
     (case s of (st, cl, files) \<Rightarrow>
        if path_exists files (path_comments num) then
          Some (st\<lparr>skip_exists := skip_exists st + 1\<rparr>, cl, files)
        else
          (case fetch_paginated e (comments_endpoint num) cl of
             None \<Rightarrow> None
           | Some (Inr comments, cl') \<Rightarrow>
               Some (st\<lparr>fetched := fetched st + 1\<rparr>, cl',
                     (files(path_comments num \<mapsto> Payload (JList comments)))
                       (path_comments_failed num := None))
           | Some (Inl err, cl') \<Rightarrow>
               Some (st\<lparr>failed := failed st + 1\<rparr>, cl',
                     write_failed (path_comments_failed num) err ''comments'' files)))"

text \<open>The \<^verbatim>\<open># Timeline\<close> block, entered when \<^verbatim>\<open>do_timeline\<close> holds.\<close>

definition timeline_step :: "env \<Rightarrow> int \<Rightarrow> stats \<times> client \<times> fs \<Rightarrow> (stats \<times> client \<times> fs) option" where
  "timeline_step e num s =
     (case s of (st, cl, files) \<Rightarrow>
        if path_exists files (path_timeline num) then
          Some (st\<lparr>skip_exists := skip_exists st + 1\<rparr>, cl, files)
        else
          (case fetch_paginated e (timeline_endpoint num) cl of
             None \<Rightarrow> None
           | Some (Inr timeline, cl') \<Rightarrow>
               Some (st\<lparr>fetched := fetched st + 1\<rparr>, cl',
                     (files(path_timeline num \<mapsto> Payload (JList timeline)))
                       (path_timeline_failed num := None))
           | Some (Inl err, cl') \<Rightarrow>
               Some (st\<lparr>failed := failed st + 1\<rparr>, cl',
                     write_failed (path_timeline_failed num) err ''timeline'' files)))"

text \<open>The \<^verbatim>\<open># Xrefs\<close> block, entered when \<^verbatim>\<open>do_xrefs\<close> holds.\<close>

definition xrefs_step :: "env \<Rightarrow> int \<Rightarrow> stats \<times> client \<times> fs \<Rightarrow> (stats \<times> client \<times> fs) option" where
  "xrefs_step e num s =
     (case s of (st, cl, files) \<Rightarrow>
        if path_exists files (path_xrefs num) then
          Some (st\<lparr>skip_exists := skip_exists st + 1\<rparr>, cl, files)
        else
          (case fetch_paginated e (timeline_endpoint num) cl of
             None \<Rightarrow> None
           | Some (Inr timeline, cl') \<Rightarrow>
               (case extract_xrefs timeline of
                  Inr xrefs \<Rightarrow>
                    Some (st\<lparr>fetched := fetched st + 1\<rparr>, cl',
                          (files(path_xrefs num \<mapsto> Payload (JList xrefs)))
                            (path_xrefs_failed num := None))
                | Inl err \<Rightarrow>
                    Some (st\<lparr>failed := failed st + 1\<rparr>, cl',
                          write_failed (path_xrefs_failed num) err ''xrefs'' files))
           | Some (Inl err, cl') \<Rightarrow>
               Some (st\<lparr>failed := failed st + 1\<rparr>, cl',
                     write_failed (path_xrefs_failed num) err ''xrefs'' files)))"

text \<open>
  The three blocks for the optional components, one after the other: each is entered
  when its flag holds, and hands its state to the next.
\<close>

definition optional_steps ::
  "env \<Rightarrow> int \<Rightarrow> bool \<Rightarrow> bool \<Rightarrow> bool \<Rightarrow> stats \<times> client \<times> fs \<Rightarrow> (stats \<times> client \<times> fs) option" where
  "optional_steps e num do_comments do_timeline do_xrefs s1 =
     (case (if do_comments then comments_step e num s1 else Some s1) of
        None \<Rightarrow> None
      | Some s2 \<Rightarrow>
          (case (if do_timeline then timeline_step e num s2 else Some s2) of
             None \<Rightarrow> None
           | Some s3 \<Rightarrow>
               (if do_xrefs then xrefs_step e num s3 else Some s3)))"

text \<open>
  \<^verbatim>\<open>process_item\<close>: the counts, the client and the marker files after the call;
  \<open>None\<close> when a paginated fetch never returns.
\<close>

definition process_item ::
  "env \<Rightarrow> int \<Rightarrow> bool \<Rightarrow> bool \<Rightarrow> bool \<Rightarrow> bool \<Rightarrow> client \<Rightarrow> fs \<Rightarrow> (stats \<times> client \<times> fs) option" where
  "process_item e num do_main do_comments do_timeline do_xrefs cl files =
     (if path_exists files (path_404 num) then Some (stats0\<lparr>skip_404 := 1\<rparr>, cl, files)
      else if path_exists files (path_skip num) then Some (stats0\<lparr>skip_date := 1\<rparr>, cl, files)
      else
        (case (if do_main then main_step e num (stats0, cl, files) else Proceed (stats0, cl, files)) of
           Return s \<Rightarrow> Some s
         | Proceed s1 \<Rightarrow>
             if (do_comments \<or> do_timeline \<or> do_xrefs) \<and> \<not> do_main
                \<and> \<not> path_exists (snd (snd s1)) (path_main num)
             then Some s1
             else optional_steps e num do_comments do_timeline do_xrefs s1))"

text \<open>\<^verbatim>\<open>GitHubClient.__init__\<close>: nothing is known about the quota, nothing has been done.\<close>

definition new_client :: client where
  "new_client = \<lparr>rate_remaining = None, rate_reset = None, trace = [], n_draws = 0, n_clock = 0\<rparr>"

section \<open>The specification's reading of the cross-reference extractor\<close>

text \<open>
  The specification describes the extractor event by event, by the fields it looks at.
  \<open>field v k\<close> is the field \<open>k\<close> of \<open>v\<close>, and \<open>JNull\<close> where \<open>v\<close> is not an
  object or has no such field.
\<close>

definition field :: "json \<Rightarrow> string \<Rightarrow> json" where
  "field v k = (case v of JObj d \<Rightarrow> (case map_of d k of Some x \<Rightarrow> x | None \<Rightarrow> JNull) | _ \<Rightarrow> JNull)"

definition field_or :: "json \<Rightarrow> string \<Rightarrow> json \<Rightarrow> json" where
  "field_or v k dflt = (case v of JObj d \<Rightarrow> (case map_of d k of Some x \<Rightarrow> x | None \<Rightarrow> dflt) | _ \<Rightarrow> dflt)"

definition is_dict :: "json \<Rightarrow> bool" where
  "is_dict v = (case v of JObj d \<Rightarrow> True | _ \<Rightarrow> False)"

text \<open>
  The entry the specification gives for one event: for a cross-referenced event the
  number under source/issue, for a referenced event the commit identifier, each taken as
  present when it is a true value of Python.
\<close>

definition spec_entry :: "json \<Rightarrow> json option" where
  "spec_entry event =
     (if field event ''event'' = JStr ''cross-referenced'' then
        (let number = field (field (field event ''source'') ''issue'') ''number''
         in if truthy number then
              Some (JObj [(''event'', JStr ''cross-referenced''),
                          (''from'', number),
                          (''type'', field_or (field event ''source'') ''type'' (JStr ''issue'')),
                          (''actor'', field (field event ''actor'') ''login''),
                          (''date'', field event ''created_at'')])
            else None)
      else if field event ''event'' = JStr ''referenced'' then
        (let commit = field event ''commit_id''
         in if truthy commit then
              Some (JObj [(''event'', JStr ''referenced''),
                          (''commit'', commit),
                          (''actor'', field (field event ''actor'') ''login''),
                          (''date'', field event ''created_at'')])
            else None)
      else None)"

text \<open>
  The events on which the code raises: a cross-referenced event whose source, or whose
  source's issue, is a true value that is not an object.
\<close>

definition malformed :: "json \<Rightarrow> bool" where
  "malformed event =
     (field event ''event'' = JStr ''cross-referenced'' \<and>
      (let source = field event ''source''
       in truthy source \<and>
          (\<not> is_dict source \<or>
           (truthy (field source ''issue'') \<and> \<not> is_dict (field source ''issue'')))))"

section \<open>The specification's classes of attempt outcomes\<close>








text \<open>What the xrefs block leaves behind: the counts, the client and its two markers.\<close>

definition xrefs_view :: "int \<Rightarrow> stats \<times> client \<times> fs \<Rightarrow> stats \<times> client \<times> content option \<times> content option" where
  "xrefs_view num s =
     (case s of (st, cl, files) \<Rightarrow> (st, cl, files (path_xrefs num), files (path_xrefs_failed num)))"

text \<open>
  A success marker that did not exist before a call and exists after it was written by
  the call; \<open>clears\<close> says that then the failure marker of the same component does not
  exist after the call.
\<close>

definition clears :: "fs \<Rightarrow> fs \<Rightarrow> string \<Rightarrow> string \<Rightarrow> bool" where
  "clears files files' success_path failed_path =
     (\<not> path_exists files success_path \<and> path_exists files' success_path
      \<longrightarrow> \<not> path_exists files' failed_path)"



section \<open>Concrete inputs\<close>

definition offline :: env where
  "offline = \<lparr>server = (\<lambda>k endpoint. TimeoutException), draws = (\<lambda>k. 0), clock = (\<lambda>k. 0)\<rparr>"

definition ev_with_number :: json where
  "ev_with_number =
     JObj [(''event'', JStr ''cross-referenced''),
           (''actor'', JObj [(''login'', JStr ''alice'')]),
           (''created_at'', JStr ''2015-03-01T10:00:00Z''),
           (''source'', JObj [(''type'', JStr ''issue''),
                             (''issue'', JObj [(''number'', JNum 42)])])]"

definition ev_without_number :: json where
  "ev_without_number =
     JObj [(''event'', JStr ''cross-referenced''),
           (''source'', JObj [(''type'', JStr ''issue''),
                             (''issue'', JObj [(''title'', JStr ''t'')])])]"

definition ev_without_commit :: json where
  "ev_without_commit = JObj [(''event'', JStr ''referenced''), (''commit_id'', JNull)]"

definition ev_source_not_object :: json where
  "ev_source_not_object = JObj [(''event'', JStr ''cross-referenced''), (''source'', JStr ''x'')]"

definition ev_number_zero :: json where
  "ev_number_zero =
     JObj [(''event'', JStr ''cross-referenced''),
           (''source'', JObj [(''issue'', JObj [(''number'', JNum 0)])])]"








text \<open>A server that answers every request with status 200 and the given body.\<close>

definition serves :: "json \<Rightarrow> env" where
  "serves j =
     \<lparr>server = (\<lambda>k endpoint. Response \<lparr>status_code = 200, x_ratelimit_remaining = None,
                                           x_ratelimit_reset = None, body = Json j\<rparr>),
      draws = (\<lambda>k. 0), clock = (\<lambda>k. 0)\<rparr>"

definition record_at_cutoff :: json where
  "record_at_cutoff = JObj [(''number'', JNum 1), (''created_at'', JStr ''2016-01-01T00:00:00Z'')]"

definition record_before_cutoff :: json where
  "record_before_cutoff = JObj [(''number'', JNum 1), (''created_at'', JStr ''2015-12-31T23:59:59Z'')]"

definition record_undated :: json where
  "record_undated = JObj [(''number'', JNum 1), (''pull_request'', JObj [(''url'', JStr ''u'')])]"

definition main_and_timeline_done :: fs where
  "main_and_timeline_done =
     (Map.empty(path_main 1 \<mapsto> Payload record_before_cutoff))
       (path_timeline 1 \<mapsto> Payload (JList []))"

definition comments_failed_before :: fs where
  "comments_failed_before =
     (Map.empty(path_main 1 \<mapsto> Payload record_before_cutoff))
       (path_comments_failed 1 \<mapsto> FailedRecord (FetchFailed (comments_endpoint 1)) ''comments'')"



section \<open>Properties\<close>

subsection \<open>Terminal markers\<close>

lemmas path_defs =
  path_404_def path_skip_def path_main_def path_main_failed_def path_comments_def
  path_comments_failed_def path_timeline_def path_timeline_failed_def path_xrefs_def
  path_xrefs_failed_def in_dir_def ITEMS_DIR_def

text \<open>
  C1. When the not-found or the excluded-by-date marker of a record exists,
  \<^verbatim>\<open>process_item\<close> returns at once, whatever components are requested: the count of
  that classification is 1 and all others are 0, the client is unchanged (no request, no
  wait) and so are the marker files.
\<close>

theorem terminal_marker_short_circuit:
  assumes "path_exists files (path_404 num) \<or> path_exists files (path_skip num)"
  shows "process_item e num do_main do_comments do_timeline do_xrefs cl files =
           Some (if path_exists files (path_404 num) then stats0\<lparr>skip_404 := 1\<rparr>
                 else stats0\<lparr>skip_date := 1\<rparr>, cl, files)"
  using assms by (auto simp: process_item_def)

theorem terminal_marker_short_circuit_witness:
  "path_exists [path_skip 7 \<mapsto> Empty] (path_skip 7) \<and>
   process_item offline 7 True True True True new_client [path_skip 7 \<mapsto> Empty] =
     Some (stats0\<lparr>skip_date := 1\<rparr>, new_client, [path_skip 7 \<mapsto> Empty])"
  using terminal_marker_short_circuit
    [of "[path_skip 7 \<mapsto> Empty]" 7 offline True True True True new_client]
  by (simp add: path_exists_def path_defs)

subsection \<open>Cross-reference extraction\<close>

lemma field_JObj: "field (JObj d) k = dict_get d k"
  by (simp add: field_def dict_get_def)

lemma field_or_JObj: "field_or (JObj d) k dflt = dict_get_default d k dflt"
  by (simp add: field_or_def dict_get_default_def)

lemma field_falsy: "\<not> truthy x \<Longrightarrow> field x k = JNull"
  by (cases x) (simp_all add: field_def)

lemma field_not_dict: "\<not> is_dict x \<Longrightarrow> field x k = JNull"
  by (cases x) (simp_all add: field_def is_dict_def)

lemma is_dict_JObj: "is_dict x \<Longrightarrow> \<exists>d. x = JObj d"
  by (cases x) (simp_all add: is_dict_def)

lemma actor_login_field:
  "(case a of JObj d \<Rightarrow> dict_get d ''login'' | _ \<Rightarrow> JNull) = field a ''login''"
  by (cases a) (simp_all add: field_def dict_get_def)

lemma or_empty_dict_falsy: "\<not> truthy x \<Longrightarrow> or_empty_dict x = JObj []"
  by (simp add: or_empty_dict_def)

lemma or_empty_dict_truthy: "truthy x \<Longrightarrow> or_empty_dict x = x"
  by (simp add: or_empty_dict_def)

lemma xref_of_event_not_dict: "\<not> is_dict event \<Longrightarrow> xref_of_event event = Inr None"
  by (cases event) (simp_all add: xref_of_event_def is_dict_def)

lemma spec_entry_not_dict: "\<not> is_dict event \<Longrightarrow> spec_entry event = None"
  by (simp add: spec_entry_def field_not_dict)

lemma xref_of_event_other:
  assumes "dict_get ev ''event'' \<noteq> JStr ''cross-referenced''"
    and "dict_get ev ''event'' \<noteq> JStr ''referenced''"
  shows "xref_of_event (JObj ev) = Inr None"
  using assms by (simp add: xref_of_event_def Let_def)

lemma xref_of_event_referenced:
  assumes "dict_get ev ''event'' = JStr ''referenced''"
  shows "xref_of_event (JObj ev) = Inr (spec_entry (JObj ev))"
  using assms
  by (simp add: xref_of_event_def spec_entry_def Let_def field_JObj actor_login_field)

lemma xref_of_event_cross:
  assumes "dict_get ev ''event'' = JStr ''cross-referenced''"
  shows "xref_of_event (JObj ev) =
           (case or_empty_dict (dict_get ev ''source'') of
              JObj src \<Rightarrow>
                (case or_empty_dict (dict_get src ''issue'') of
                   JObj iss \<Rightarrow>
                     if truthy (dict_get iss ''number'') then
                       Inr (Some (JObj
                         [(''event'', JStr ''cross-referenced''),
                          (''from'', dict_get iss ''number''),
                          (''type'', dict_get_default src ''type'' (JStr ''issue'')),
                          (''actor'', field (dict_get ev ''actor'') ''login''),
                          (''date'', dict_get ev ''created_at'')]))
                     else Inr None
                 | _ \<Rightarrow> Inl (AttributeError (or_empty_dict (dict_get src ''issue''))))
            | _ \<Rightarrow> Inl (AttributeError (or_empty_dict (dict_get ev ''source''))))"
  using assms by (simp add: xref_of_event_def Let_def actor_login_field cong: json.case_cong)

lemma dict_get_Nil: "dict_get [] k = JNull"
  by (simp add: dict_get_def)

lemma dict_get_default_Nil: "dict_get_default [] k d = d"
  by (simp add: dict_get_default_def)

lemma field_or_falsy: "\<not> truthy x \<Longrightarrow> field_or x k d = d"
  by (cases x) (simp_all add: field_or_def)

lemma xref_of_event_ok:
  assumes "\<not> malformed event"
  shows "xref_of_event event = Inr (spec_entry event)"
proof (cases "is_dict event")
  case False
  then show ?thesis by (simp add: xref_of_event_not_dict spec_entry_not_dict)
next
  case True
  then obtain ev where ev: "event = JObj ev" using is_dict_JObj by blast
  consider (cross) "dict_get ev ''event'' = JStr ''cross-referenced''"
    | (ref) "dict_get ev ''event'' = JStr ''referenced''"
    | (other) "dict_get ev ''event'' \<noteq> JStr ''cross-referenced''" "dict_get ev ''event'' \<noteq> JStr ''referenced''"
    by blast
  then show ?thesis
  proof cases
    case ref
    then show ?thesis by (simp add: ev xref_of_event_referenced)
  next
    case other
    then show ?thesis by (simp add: ev xref_of_event_other spec_entry_def field_JObj)
  next
    case cross
    let ?s = "dict_get ev ''source''"
    show ?thesis
    proof (cases "truthy ?s")
      case False
      then show ?thesis
        by (simp add: ev xref_of_event_cross [OF cross] spec_entry_def field_JObj cross
            or_empty_dict_falsy dict_get_Nil field_falsy)
    next
      case True
      with assms cross have "is_dict ?s"
        by (auto simp: malformed_def ev field_JObj Let_def)
      then obtain src where src: "?s = JObj src" using is_dict_JObj by blast
      let ?i = "dict_get src ''issue''"
      show ?thesis
      proof (cases "truthy ?i")
        case False
        then show ?thesis
          by (simp add: ev xref_of_event_cross [OF cross] spec_entry_def field_JObj cross src
              or_empty_dict_falsy or_empty_dict_truthy [OF True [unfolded src]]
              dict_get_Nil field_falsy)
      next
        case Ti: True
        with assms cross True src have "is_dict ?i"
          by (auto simp: malformed_def ev field_JObj Let_def)
        then obtain iss where iss: "?i = JObj iss" using is_dict_JObj by blast
        show ?thesis
          by (simp add: ev xref_of_event_cross [OF cross] spec_entry_def field_JObj cross src iss
              or_empty_dict_truthy [OF True [unfolded src]] or_empty_dict_truthy [OF Ti [unfolded iss]]
              field_or_JObj Let_def)
      qed
    qed
  qed
qed

lemma case_not_dict:
  "\<not> is_dict x \<Longrightarrow> (case x of JObj d \<Rightarrow> f d | _ \<Rightarrow> g) = g"
  by (cases x) (simp_all add: is_dict_def)

lemma xref_of_event_raises:
  assumes "malformed event"
  shows "\<exists>v. xref_of_event event = Inl (AttributeError v)"
proof -
  from assms have "is_dict event"
    by (cases event) (simp_all add: malformed_def field_def is_dict_def)
  then obtain ev where ev: "event = JObj ev" using is_dict_JObj by blast
  from assms have cross: "dict_get ev ''event'' = JStr ''cross-referenced''"
    and s: "truthy (dict_get ev ''source'')"
    and bad: "\<not> is_dict (dict_get ev ''source'') \<or>
       (truthy (field (dict_get ev ''source'') ''issue'') \<and> \<not> is_dict (field (dict_get ev ''source'') ''issue''))"
    by (simp_all add: malformed_def ev field_JObj Let_def)
  from s have oe: "or_empty_dict (dict_get ev ''source'') = dict_get ev ''source''"
    by (rule or_empty_dict_truthy)
  show ?thesis
  proof (cases "is_dict (dict_get ev ''source'')")
    case False
    then show ?thesis
      by (simp add: ev xref_of_event_cross [OF cross] oe case_not_dict)
  next
    case True
    then obtain src where src: "dict_get ev ''source'' = JObj src" using is_dict_JObj by blast
    from bad True src have ti: "truthy (dict_get src ''issue'')" and ni: "\<not> is_dict (dict_get src ''issue'')"
      by (simp_all add: field_JObj)
    from ti have oi: "or_empty_dict (dict_get src ''issue'') = dict_get src ''issue''"
      by (rule or_empty_dict_truthy)
    note oe' = oe [unfolded src]
    from ni show ?thesis
      by (simp add: ev xref_of_event_cross [OF cross] src oe' oi case_not_dict)
  qed
qed

lemma extract_loop_ok:
  "\<forall>ev\<in>set evs. \<not> malformed ev \<Longrightarrow>
   extract_loop evs acc = Inr (acc @ List.map_filter spec_entry evs)"
proof (induction evs arbitrary: acc)
  case Nil
  then show ?case by (simp add: List.map_filter_simps)
next
  case (Cons ev evs)
  then have "xref_of_event ev = Inr (spec_entry ev)"
    by (simp add: xref_of_event_ok)
  with Cons show ?case
    by (cases "spec_entry ev") (simp_all add: List.map_filter_simps)
qed

lemma extract_loop_raises:
  "\<exists>ev\<in>set evs. malformed ev \<Longrightarrow> \<exists>v. extract_loop evs acc = Inl (AttributeError v)"
proof (induction evs arbitrary: acc)
  case Nil
  then show ?case by simp
next
  case (Cons ev evs)
  show ?case
  proof (cases "malformed ev")
    case True
    then obtain v where "xref_of_event ev = Inl (AttributeError v)"
      using xref_of_event_raises by blast
    then show ?thesis by simp
  next
    case False
    then have ok: "xref_of_event ev = Inr (spec_entry ev)"
      by (simp add: xref_of_event_ok)
    from False Cons.prems have "\<exists>ev\<in>set evs. malformed ev" by simp
    then have "\<And>acc. \<exists>v. extract_loop evs acc = Inl (AttributeError v)"
      using Cons.IH by blast
    with ok show ?thesis
      by (cases "spec_entry ev") simp_all
  qed
qed

lemma length_map_filter_le: "length (List.map_filter f xs) \<le> length xs"
  by (induction xs) (simp_all add: List.map_filter_simps split: option.splits)

text \<open>
  C6, as amended. \<^verbatim>\<open>extract_xrefs\<close> raises an attribute error exactly when some event of
  the timeline is a cross-referenced event whose source, or whose source's issue, is a true
  value that is not an object. Otherwise it returns, in input order, one entry for each
  cross-referenced event whose source issue number is present and a true value, one entry
  for each referenced event whose commit identifier is present and a true value, and
  nothing for any other event. A returned sequence is no longer than the input.
\<close>

theorem extract_xrefs_refines:
  "(if \<exists>ev\<in>set timeline. malformed ev
    then \<exists>v. extract_xrefs timeline = Inl (AttributeError v)
    else extract_xrefs timeline = Inr (List.map_filter spec_entry timeline)) \<and>
   (\<forall>xrefs. extract_xrefs timeline = Inr xrefs \<longrightarrow> length xrefs \<le> length timeline)"
proof -
  have a: "\<exists>v. extract_xrefs timeline = Inl (AttributeError v)"
    if "\<exists>ev\<in>set timeline. malformed ev"
    using that extract_loop_raises [of timeline "[]"] by (simp add: extract_xrefs_def)
  have b: "extract_xrefs timeline = Inr (List.map_filter spec_entry timeline)"
    if "\<not> (\<exists>ev\<in>set timeline. malformed ev)"
    using that extract_loop_ok [of timeline "[]"] by (simp add: extract_xrefs_def)
  have c: "length xrefs \<le> length timeline" if "extract_xrefs timeline = Inr xrefs" for xrefs
  proof (cases "\<exists>ev\<in>set timeline. malformed ev")
    case True
    with a that show ?thesis by auto
  next
    case False
    with b that show ?thesis by (simp add: length_map_filter_le)
  qed
  from a b c show ?thesis by auto
qed

lemmas json_eval =
  field_def field_or_def is_dict_def spec_entry_def malformed_def
  ev_with_number_def ev_without_number_def ev_without_commit_def

theorem extract_xrefs_refines_witness:
  "\<not> malformed ev_with_number \<and> \<not> malformed ev_without_number \<and> \<not> malformed ev_without_commit \<and>
   extract_xrefs [ev_with_number, ev_without_number, ev_without_commit] =
     Inr [JObj [(''event'', JStr ''cross-referenced''), (''from'', JNum 42),
                (''type'', JStr ''issue''), (''actor'', JStr ''alice''),
                (''date'', JStr ''2015-03-01T10:00:00Z'')]] \<and>
   malformed ev_source_not_object \<and>
   isl (extract_xrefs [ev_with_number, ev_source_not_object])"
proof -
  have ok: "\<not> malformed ev_with_number" "\<not> malformed ev_without_number" "\<not> malformed ev_without_commit"
    by (simp_all add: json_eval)
  have bad: "malformed ev_source_not_object"
    by (simp add: malformed_def field_def is_dict_def ev_source_not_object_def)
  from extract_xrefs_refines [of "[ev_with_number, ev_without_number, ev_without_commit]"] ok
  have a: "extract_xrefs [ev_with_number, ev_without_number, ev_without_commit] =
     Inr [JObj [(''event'', JStr ''cross-referenced''), (''from'', JNum 42),
                (''type'', JStr ''issue''), (''actor'', JStr ''alice''),
                (''date'', JStr ''2015-03-01T10:00:00Z'')]]"
    by (simp add: json_eval)
  from extract_xrefs_refines [of "[ev_with_number, ev_source_not_object]"] bad
  have b: "isl (extract_xrefs [ev_with_number, ev_source_not_object])"
    by auto
  from ok a bad b show ?thesis by blast
qed

text \<open>
  C6 as stated fails: a cross-referenced event whose source issue number is present and is
  0 yields no entry.
\<close>

theorem present_number_zero_dropped:
  "field (field (field ev_number_zero ''source'') ''issue'') ''number'' = JNum 0 \<and>
   extract_xrefs [ev_number_zero] = Inr []"
  by (simp add: ev_number_zero_def field_def extract_xrefs_def xref_of_event_def
      dict_get_def dict_get_default_def or_empty_dict_def)

subsection \<open>The retrying fetch\<close>
















lemma fetch_first_attempt:
  "fetch e endpoint cl =
     (case fetch_attempt e endpoint 0 cl of
        Returned j cl' \<Rightarrow> (Inr j, cl')
      | NextAttempt cl' \<Rightarrow> fetch_attempts e endpoint [Suc 0..<5] cl'
      | Raised err cl' \<Rightarrow> (Inl err, cl'))"
proof -
  have "[0..<5::nat] = 0 # [Suc 0..<5]"
    by (rule upt_conv_Cons) simp
  then show ?thesis
    by (simp only: fetch_def MAX_RETRIES_def fetch_attempts.simps)
qed






subsection \<open>Pagination\<close>









subsection \<open>The main component and the cutoff\<close>

lemma comments_step_frame:
  assumes "comments_step e num (st, cl, files) = Some (st', cl', files')"
  shows "skip_date st' = skip_date st"
    and "p \<noteq> path_comments num \<Longrightarrow> p \<noteq> path_comments_failed num \<Longrightarrow> files' p = files p"
  using assms
  by (auto simp: comments_step_def write_failed_def split: if_splits option.splits sum.splits)

lemma timeline_step_frame:
  assumes "timeline_step e num (st, cl, files) = Some (st', cl', files')"
  shows "skip_date st' = skip_date st"
    and "p \<noteq> path_timeline num \<Longrightarrow> p \<noteq> path_timeline_failed num \<Longrightarrow> files' p = files p"
  using assms
  by (auto simp: timeline_step_def write_failed_def split: if_splits option.splits sum.splits)

lemma xrefs_step_frame:
  assumes "xrefs_step e num (st, cl, files) = Some (st', cl', files')"
  shows "skip_date st' = skip_date st"
    and "p \<noteq> path_xrefs num \<Longrightarrow> p \<noteq> path_xrefs_failed num \<Longrightarrow> files' p = files p"
  using assms
  by (auto simp: xrefs_step_def write_failed_def split: if_splits option.splits sum.splits)

lemma optional_steps_frame:
  assumes "optional_steps e num do_comments do_timeline do_xrefs (st, cl, files) = Some (st', cl', files')"
  shows "skip_date st' = skip_date st"
    and "p \<noteq> path_comments num \<Longrightarrow> p \<noteq> path_comments_failed num \<Longrightarrow>
         p \<noteq> path_timeline num \<Longrightarrow> p \<noteq> path_timeline_failed num \<Longrightarrow>
         p \<noteq> path_xrefs num \<Longrightarrow> p \<noteq> path_xrefs_failed num \<Longrightarrow> files' p = files p"
proof -
  obtain st2 cl2 files2 where
    s2: "(if do_comments then comments_step e num (st, cl, files) else Some (st, cl, files)) = Some (st2, cl2, files2)"
    using assms by (cases "if do_comments then comments_step e num (st, cl, files) else Some (st, cl, files)")
      (auto simp: optional_steps_def)
  obtain st3 cl3 files3 where
    s3: "(if do_timeline then timeline_step e num (st2, cl2, files2) else Some (st2, cl2, files2)) = Some (st3, cl3, files3)"
    using assms s2 by (cases "if do_timeline then timeline_step e num (st2, cl2, files2) else Some (st2, cl2, files2)")
      (auto simp: optional_steps_def)
  have s4: "(if do_xrefs then xrefs_step e num (st3, cl3, files3) else Some (st3, cl3, files3)) = Some (st', cl', files')"
    using assms s2 s3 by (simp add: optional_steps_def)
  have a2: "skip_date st2 = skip_date st"
    using s2 comments_step_frame(1) by (cases do_comments) auto
  have a3: "skip_date st3 = skip_date st2"
    using s3 timeline_step_frame(1) by (cases do_timeline) auto
  have a4: "skip_date st' = skip_date st3"
    using s4 xrefs_step_frame(1) by (cases do_xrefs) auto
  show "skip_date st' = skip_date st"
    by (simp add: a2 a3 a4)
  assume p: "p \<noteq> path_comments num" "p \<noteq> path_comments_failed num"
    "p \<noteq> path_timeline num" "p \<noteq> path_timeline_failed num"
    "p \<noteq> path_xrefs num" "p \<noteq> path_xrefs_failed num"
  have b2: "files2 p = files p"
    using s2 comments_step_frame(2) [OF _ p(1,2)] by (cases do_comments) auto
  have b3: "files3 p = files2 p"
    using s3 timeline_step_frame(2) [OF _ p(3,4)] by (cases do_timeline) auto
  have b4: "files' p = files3 p"
    using s4 xrefs_step_frame(2) [OF _ p(5,6)] by (cases do_xrefs) auto
  show "files' p = files p"
    by (simp add: b2 b3 b4)
qed

lemma main_step_dict:
  assumes "\<not> path_exists files (path_main num)"
    and "fetch e (main_endpoint num) cl = (Inr (JObj d), cl')"
    and "dict_get_default d ''created_at'' (JStr []) = JStr created_at"
  shows "main_step e num (st, cl, files) =
          (if CUTOFF_DATE \<le> created_at
           then Return (st\<lparr>skip_date := 1\<rparr>, cl', files(path_skip num \<mapsto> Empty))
           else Proceed (st\<lparr>fetched := fetched st + 1\<rparr>, cl',
                  (files(path_main num \<mapsto>
                     Payload (JObj (dict_set d ''_meta''
                       (JObj [(''type'', JStr (if dict_contains d ''pull_request'' then ''pr'' else ''issue''))])))))
                    (path_main_failed num := None)))"
  by (simp add: main_step_def assms Let_def)

lemma process_item_main_dict:
  assumes "\<not> path_exists files (path_404 num)" "\<not> path_exists files (path_skip num)"
    and "\<not> path_exists files (path_main num)"
    and "fetch e (main_endpoint num) cl = (Inr (JObj d), cl')"
    and "dict_get_default d ''created_at'' (JStr []) = JStr created_at"
  shows "process_item e num True do_comments do_timeline do_xrefs cl files =
          (if CUTOFF_DATE \<le> created_at
           then Some (stats0\<lparr>skip_date := 1\<rparr>, cl', files(path_skip num \<mapsto> Empty))
           else optional_steps e num do_comments do_timeline do_xrefs
                  (stats0\<lparr>fetched := 1\<rparr>, cl',
                   (files(path_main num \<mapsto>
                      Payload (JObj (dict_set d ''_meta''
                        (JObj [(''type'', JStr (if dict_contains d ''pull_request'' then ''pr'' else ''issue''))])))))
                     (path_main_failed num := None)))"
  using assms(1,2)
  by (simp add: process_item_def main_step_dict [OF assms(3,4,5)] stats0_def)

lemma optional_steps_no_skip:
  assumes "optional_steps e num do_comments do_timeline do_xrefs (st, cl, files) = Some (st', cl', files')"
  shows "skip_date st' = skip_date st"
    and "path_exists files' (path_skip num) = path_exists files (path_skip num)"
    and "path_exists files' (path_main num) = path_exists files (path_main num)"
proof -
  show "skip_date st' = skip_date st"
    using assms by (rule optional_steps_frame(1))
  have "files' (path_skip num) = files (path_skip num)"
    by (rule optional_steps_frame(2) [OF assms]) (simp_all add: path_defs)
  then show "path_exists files' (path_skip num) = path_exists files (path_skip num)"
    by (simp add: path_exists_def)
  have "files' (path_main num) = files (path_main num)"
    by (rule optional_steps_frame(2) [OF assms]) (simp_all add: path_defs)
  then show "path_exists files' (path_main num) = path_exists files (path_main num)"
    by (simp add: path_exists_def)
qed

text \<open>
  C5. Let no terminal marker and no main success marker exist, let the main component be
  requested, and let the fetch of the record return an object whose creation timestamp
  (the empty string when the field is missing) is a string. If the timestamp is at or
  after the cutoff, in the order of strings, \<^verbatim>\<open>process_item\<close> writes the
  excluded-by-date marker and returns with the excluded count 1 and nothing else counted.
  If it is before the cutoff, \<^verbatim>\<open>process_item\<close> persists the record and goes on to the
  optional components, and whenever it returns, the excluded count is 0 and there is no
  excluded-by-date marker. The witness has the timestamp equal to the cutoff, and the
  last second before it.
\<close>

theorem cutoff_exclusion:
  assumes "\<not> path_exists files (path_404 num)" "\<not> path_exists files (path_skip num)"
    and "\<not> path_exists files (path_main num)"
    and "fetch e (main_endpoint num) cl = (Inr (JObj d), cl')"
    and "dict_get_default d ''created_at'' (JStr []) = JStr created_at"
  shows "(CUTOFF_DATE \<le> created_at \<longrightarrow>
            process_item e num True do_comments do_timeline do_xrefs cl files =
              Some (stats0\<lparr>skip_date := 1\<rparr>, cl', files(path_skip num \<mapsto> Empty))) \<and>
         (\<not> CUTOFF_DATE \<le> created_at \<longrightarrow>
            process_item e num True do_comments do_timeline do_xrefs cl files =
              optional_steps e num do_comments do_timeline do_xrefs
                (stats0\<lparr>fetched := 1\<rparr>, cl',
                 (files(path_main num \<mapsto>
                    Payload (JObj (dict_set d ''_meta''
                      (JObj [(''type'', JStr (if dict_contains d ''pull_request'' then ''pr'' else ''issue''))])))))
                   (path_main_failed num := None)) \<and>
            (\<forall>st cl'' files'.
               process_item e num True do_comments do_timeline do_xrefs cl files = Some (st, cl'', files')
               \<longrightarrow> skip_date st = 0 \<and> \<not> path_exists files' (path_skip num)))"
proof (intro conjI impI allI)
  assume "CUTOFF_DATE \<le> created_at"
  then show "process_item e num True do_comments do_timeline do_xrefs cl files =
              Some (stats0\<lparr>skip_date := 1\<rparr>, cl', files(path_skip num \<mapsto> Empty))"
    by (simp add: process_item_main_dict [OF assms])
next
  assume "\<not> CUTOFF_DATE \<le> created_at"
  then show "process_item e num True do_comments do_timeline do_xrefs cl files =
              optional_steps e num do_comments do_timeline do_xrefs
                (stats0\<lparr>fetched := 1\<rparr>, cl',
                 (files(path_main num \<mapsto>
                    Payload (JObj (dict_set d ''_meta''
                      (JObj [(''type'', JStr (if dict_contains d ''pull_request'' then ''pr'' else ''issue''))])))))
                   (path_main_failed num := None))"
    by (simp add: process_item_main_dict [OF assms])
next
  fix st cl'' files'
  assume n: "\<not> CUTOFF_DATE \<le> created_at"
    and r: "process_item e num True do_comments do_timeline do_xrefs cl files = Some (st, cl'', files')"
  from n r have o: "optional_steps e num do_comments do_timeline do_xrefs
                (stats0\<lparr>fetched := 1\<rparr>, cl',
                 (files(path_main num \<mapsto>
                    Payload (JObj (dict_set d ''_meta''
                      (JObj [(''type'', JStr (if dict_contains d ''pull_request'' then ''pr'' else ''issue''))])))))
                   (path_main_failed num := None)) = Some (st, cl'', files')"
    by (simp add: process_item_main_dict [OF assms])
  from optional_steps_no_skip(1) [OF o] show "skip_date st = 0"
    by (simp add: stats0_def)
  from optional_steps_no_skip(2) [OF o] assms(2) show "\<not> path_exists files' (path_skip num)"
    by (simp add: path_exists_def path_defs)
qed

lemma fetch_serves:
  "fetch (serves j) endpoint new_client = (Inr j, new_client\<lparr>trace := [Get endpoint]\<rparr>)"
  by (simp add: fetch_first_attempt fetch_attempt_def Let_def serves_def new_client_def
      update_rate_limit_def check_rate_limit_def num_gets_def)

lemma no_markers:
  "\<not> path_exists Map.empty p"
  by (simp add: path_exists_def)

theorem cutoff_exclusion_witness:
  "process_item (serves record_at_cutoff) 1 True True True True new_client Map.empty =
     Some (stats0\<lparr>skip_date := 1\<rparr>, new_client\<lparr>trace := [Get (main_endpoint 1)]\<rparr>,
           [path_skip 1 \<mapsto> Empty]) \<and>
   process_item (serves record_before_cutoff) 1 True False False False new_client Map.empty =
     Some (stats0\<lparr>fetched := 1\<rparr>, new_client\<lparr>trace := [Get (main_endpoint 1)]\<rparr>,
           (Map.empty(path_main 1 \<mapsto>
              Payload (JObj [(''number'', JNum 1), (''created_at'', JStr ''2015-12-31T23:59:59Z''),
                             (''_meta'', JObj [(''type'', JStr ''issue'')])])))
             (path_main_failed 1 := None))"
proof -
  have a: "fetch (serves record_at_cutoff) (main_endpoint 1) new_client =
             (Inr (JObj [(''number'', JNum 1), (''created_at'', JStr ''2016-01-01T00:00:00Z'')]),
              new_client\<lparr>trace := [Get (main_endpoint 1)]\<rparr>)"
    by (simp add: fetch_serves record_at_cutoff_def)
  have b: "fetch (serves record_before_cutoff) (main_endpoint 1) new_client =
             (Inr (JObj [(''number'', JNum 1), (''created_at'', JStr ''2015-12-31T23:59:59Z'')]),
              new_client\<lparr>trace := [Get (main_endpoint 1)]\<rparr>)"
    by (simp add: fetch_serves record_before_cutoff_def)
  have ca: "dict_get_default [(''number'', JNum 1), (''created_at'', JStr ''2016-01-01T00:00:00Z'')]
              ''created_at'' (JStr []) = JStr ''2016-01-01T00:00:00Z''"
    by (simp add: dict_get_default_def)
  have cb: "dict_get_default [(''number'', JNum 1), (''created_at'', JStr ''2015-12-31T23:59:59Z'')]
              ''created_at'' (JStr []) = JStr ''2015-12-31T23:59:59Z''"
    by (simp add: dict_get_default_def)
  from cutoff_exclusion [OF no_markers no_markers no_markers a ca, of True True True]
  have "process_item (serves record_at_cutoff) 1 True True True True new_client Map.empty =
     Some (stats0\<lparr>skip_date := 1\<rparr>, new_client\<lparr>trace := [Get (main_endpoint 1)]\<rparr>,
           [path_skip 1 \<mapsto> Empty])"
    by (simp add: CUTOFF_DATE_def)
  moreover
  from cutoff_exclusion [OF no_markers no_markers no_markers b cb, of False False False]
  have "process_item (serves record_before_cutoff) 1 True False False False new_client Map.empty =
     Some (stats0\<lparr>fetched := 1\<rparr>, new_client\<lparr>trace := [Get (main_endpoint 1)]\<rparr>,
           (Map.empty(path_main 1 \<mapsto>
              Payload (JObj [(''number'', JNum 1), (''created_at'', JStr ''2015-12-31T23:59:59Z''),
                             (''_meta'', JObj [(''type'', JStr ''issue'')])])))
             (path_main_failed 1 := None))"
    by (simp add: CUTOFF_DATE_def optional_steps_def dict_contains_def)
  ultimately show ?thesis by simp
qed

text \<open>
  C10. Let no terminal marker and no main success marker exist, let the main component
  be requested, and let the fetch of the record return an object without a creation
  timestamp, or with the empty string for it. Then the timestamp compared is the empty
  string, which is below the cutoff; \<^verbatim>\<open>process_item\<close> persists the record with its
  classification and goes on to the optional components; and whenever it returns, the
  excluded count is 0, there is no excluded-by-date marker, and the main success marker
  exists.
\<close>

theorem missing_timestamp_not_excluded:
  assumes "\<not> path_exists files (path_404 num)" "\<not> path_exists files (path_skip num)"
    and "\<not> path_exists files (path_main num)"
    and "fetch e (main_endpoint num) cl = (Inr (JObj d), cl')"
    and "map_of d ''created_at'' = None \<or> map_of d ''created_at'' = Some (JStr [])"
  shows "dict_get_default d ''created_at'' (JStr []) = JStr [] \<and> \<not> CUTOFF_DATE \<le> [] \<and>
         process_item e num True do_comments do_timeline do_xrefs cl files =
           optional_steps e num do_comments do_timeline do_xrefs
             (stats0\<lparr>fetched := 1\<rparr>, cl',
              (files(path_main num \<mapsto>
                 Payload (JObj (dict_set d ''_meta''
                   (JObj [(''type'', JStr (if dict_contains d ''pull_request'' then ''pr'' else ''issue''))])))))
                (path_main_failed num := None)) \<and>
         (\<forall>st cl'' files'.
            process_item e num True do_comments do_timeline do_xrefs cl files = Some (st, cl'', files')
            \<longrightarrow> skip_date st = 0 \<and> \<not> path_exists files' (path_skip num)
                \<and> path_exists files' (path_main num))"
proof -
  from assms(5) have dflt: "dict_get_default d ''created_at'' (JStr []) = JStr []"
    by (auto simp: dict_get_default_def)
  have below: "\<not> CUTOFF_DATE \<le> []"
    by (simp add: CUTOFF_DATE_def)
  have eq: "process_item e num True do_comments do_timeline do_xrefs cl files =
           optional_steps e num do_comments do_timeline do_xrefs
             (stats0\<lparr>fetched := 1\<rparr>, cl',
              (files(path_main num \<mapsto>
                 Payload (JObj (dict_set d ''_meta''
                   (JObj [(''type'', JStr (if dict_contains d ''pull_request'' then ''pr'' else ''issue''))])))))
                (path_main_failed num := None))"
    using below by (simp add: process_item_main_dict [OF assms(1,2,3,4) dflt])
  have fin: "skip_date st = 0 \<and> \<not> path_exists files' (path_skip num) \<and> path_exists files' (path_main num)"
    if "process_item e num True do_comments do_timeline do_xrefs cl files = Some (st, cl'', files')"
    for st cl'' files'
  proof -
    from that eq have o: "optional_steps e num do_comments do_timeline do_xrefs
             (stats0\<lparr>fetched := 1\<rparr>, cl',
              (files(path_main num \<mapsto>
                 Payload (JObj (dict_set d ''_meta''
                   (JObj [(''type'', JStr (if dict_contains d ''pull_request'' then ''pr'' else ''issue''))])))))
                (path_main_failed num := None)) = Some (st, cl'', files')"
      by simp
    from optional_steps_no_skip(1) [OF o] have "skip_date st = 0"
      by (simp add: stats0_def)
    moreover from optional_steps_no_skip(2) [OF o] assms(2) have "\<not> path_exists files' (path_skip num)"
      by (simp add: path_exists_def path_defs)
    moreover from optional_steps_no_skip(3) [OF o] have "path_exists files' (path_main num)"
      by (simp add: path_exists_def path_defs)
    ultimately show ?thesis by simp
  qed
  from dflt below eq fin show ?thesis by blast
qed

theorem missing_timestamp_not_excluded_witness:
  "process_item (serves record_undated) 1 True False False False new_client Map.empty =
     Some (stats0\<lparr>fetched := 1\<rparr>, new_client\<lparr>trace := [Get (main_endpoint 1)]\<rparr>,
           (Map.empty(path_main 1 \<mapsto>
              Payload (JObj [(''number'', JNum 1), (''pull_request'', JObj [(''url'', JStr ''u'')]),
                             (''_meta'', JObj [(''type'', JStr ''pr'')])])))
             (path_main_failed 1 := None))"
proof -
  have a: "fetch (serves record_undated) (main_endpoint 1) new_client =
             (Inr (JObj [(''number'', JNum 1), (''pull_request'', JObj [(''url'', JStr ''u'')])]),
              new_client\<lparr>trace := [Get (main_endpoint 1)]\<rparr>)"
    by (simp add: fetch_serves record_undated_def)
  have c: "map_of [(''number'', JNum 1), (''pull_request'', JObj [(''url'', JStr ''u'')])] ''created_at'' = None
           \<or> map_of [(''number'', JNum 1), (''pull_request'', JObj [(''url'', JStr ''u'')])] ''created_at''
               = Some (JStr [])"
    by simp
  from missing_timestamp_not_excluded [OF no_markers no_markers no_markers a c, of False False False]
  show ?thesis
    by (simp add: optional_steps_def dict_contains_def)
qed

subsection \<open>The xrefs component\<close>

lemma main_step_frame:
  assumes "main_step e num (st, cl, files) = Proceed (st', cl', files')"
  shows "p \<noteq> path_main num \<Longrightarrow> p \<noteq> path_main_failed num \<Longrightarrow> files' p = files p"
  using assms
  by (auto simp: main_step_def write_failed_def Let_def
      split: if_splits prod.splits sum.splits json.splits)

lemma xrefs_step_absent:
  assumes "\<not> path_exists files (path_xrefs num)"
  shows "xrefs_step e num (st, cl, files) =
           (case fetch_paginated e (timeline_endpoint num) cl of
              None \<Rightarrow> None
            | Some (Inr timeline, cl') \<Rightarrow>
                (case extract_xrefs timeline of
                   Inr xrefs \<Rightarrow>
                     Some (st\<lparr>fetched := fetched st + 1\<rparr>, cl',
                           (files(path_xrefs num \<mapsto> Payload (JList xrefs)))
                             (path_xrefs_failed num := None))
                 | Inl err \<Rightarrow>
                     Some (st\<lparr>failed := failed st + 1\<rparr>, cl',
                           write_failed (path_xrefs_failed num) err ''xrefs'' files))
            | Some (Inl err, cl') \<Rightarrow>
                Some (st\<lparr>failed := failed st + 1\<rparr>, cl',
                      write_failed (path_xrefs_failed num) err ''xrefs'' files))"
  using assms by (simp add: xrefs_step_def)

lemma process_item_reaches_optional:
  assumes "\<not> path_exists files (path_404 num)" "\<not> path_exists files (path_skip num)"
    and "(if do_main then main_step e num (stats0, cl, files) else Proceed (stats0, cl, files))
           = Proceed (st1, cl1, files1)"
    and "do_main \<or> path_exists files (path_main num)"
  shows "process_item e num do_main do_comments do_timeline do_xrefs cl files =
           optional_steps e num do_comments do_timeline do_xrefs (st1, cl1, files1)"
proof (cases do_main)
  case True
  with assms show ?thesis by (simp add: process_item_def)
next
  case False
  with assms have "files1 = files" and "path_exists files (path_main num)" by simp_all
  with assms False show ?thesis by (simp add: process_item_def)
qed

text \<open>
  C7, as amended. Let \<^verbatim>\<open>process_item\<close> reach the xrefs block: no terminal marker exists,
  the main block falls through (and the main success marker exists when the main
  component is not requested), and the comments and timeline blocks return. If the xrefs
  component is requested and its success marker does not exist, \<^verbatim>\<open>process_item\<close> calls
  \<^verbatim>\<open>fetch_paginated\<close> on the timeline endpoint from the client state the earlier
  blocks left, and derives the cross-references from what this call returns, whether or
  not a timeline success marker exists. What the timeline marker holds is not read: with
  any other content in it, the xrefs block leaves the same counts, client and xrefs
  markers.
\<close>

theorem xrefs_refetch_timeline:
  assumes "\<not> path_exists files (path_404 num)" "\<not> path_exists files (path_skip num)"
    and "\<not> path_exists files (path_xrefs num)"
    and "(if do_main then main_step e num (stats0, cl, files) else Proceed (stats0, cl, files))
           = Proceed (st1, cl1, files1)"
    and "do_main \<or> path_exists files (path_main num)"
    and "(if do_comments then comments_step e num (st1, cl1, files1) else Some (st1, cl1, files1))
           = Some (st2, cl2, files2)"
    and "(if do_timeline then timeline_step e num (st2, cl2, files2) else Some (st2, cl2, files2))
           = Some (st3, cl3, files3)"
  shows "process_item e num do_main do_comments do_timeline True cl files =
           (case fetch_paginated e (timeline_endpoint num) cl3 of
              None \<Rightarrow> None
            | Some (Inr timeline, cl') \<Rightarrow>
                (case extract_xrefs timeline of
                   Inr xrefs \<Rightarrow>
                     Some (st3\<lparr>fetched := fetched st3 + 1\<rparr>, cl',
                           (files3(path_xrefs num \<mapsto> Payload (JList xrefs)))
                             (path_xrefs_failed num := None))
                 | Inl err \<Rightarrow>
                     Some (st3\<lparr>failed := failed st3 + 1\<rparr>, cl',
                           write_failed (path_xrefs_failed num) err ''xrefs'' files3))
            | Some (Inl err, cl') \<Rightarrow>
                Some (st3\<lparr>failed := failed st3 + 1\<rparr>, cl',
                      write_failed (path_xrefs_failed num) err ''xrefs'' files3)) \<and>
         (\<forall>c. map_option (xrefs_view num)
                (xrefs_step e num (st3, cl3, files3(path_timeline num \<mapsto> c))) =
              map_option (xrefs_view num) (xrefs_step e num (st3, cl3, files3)))"
proof
  have x1: "files1 (path_xrefs num) = files (path_xrefs num)"
  proof (cases do_main)
    case True
    with assms(4) have "main_step e num (stats0, cl, files) = Proceed (st1, cl1, files1)" by simp
    then show ?thesis by (rule main_step_frame) (simp_all add: path_defs)
  next
    case False
    with assms(4) show ?thesis by simp
  qed
  have x2: "files2 (path_xrefs num) = files1 (path_xrefs num)"
  proof (cases do_comments)
    case True
    with assms(6) have "comments_step e num (st1, cl1, files1) = Some (st2, cl2, files2)" by simp
    then show ?thesis by (rule comments_step_frame(2)) (simp_all add: path_defs)
  next
    case False
    with assms(6) show ?thesis by simp
  qed
  have x3: "files3 (path_xrefs num) = files2 (path_xrefs num)"
  proof (cases do_timeline)
    case True
    with assms(7) have "timeline_step e num (st2, cl2, files2) = Some (st3, cl3, files3)" by simp
    then show ?thesis by (rule timeline_step_frame(2)) (simp_all add: path_defs)
  next
    case False
    with assms(7) show ?thesis by simp
  qed
  from x1 x2 x3 assms(3) have absent: "\<not> path_exists files3 (path_xrefs num)"
    by (simp add: path_exists_def)
  have "process_item e num do_main do_comments do_timeline True cl files =
          xrefs_step e num (st3, cl3, files3)"
    by (simp add: process_item_reaches_optional [OF assms(1,2,4,5)] optional_steps_def assms(6,7))
  then show "process_item e num do_main do_comments do_timeline True cl files =
           (case fetch_paginated e (timeline_endpoint num) cl3 of
              None \<Rightarrow> None
            | Some (Inr timeline, cl') \<Rightarrow>
                (case extract_xrefs timeline of
                   Inr xrefs \<Rightarrow>
                     Some (st3\<lparr>fetched := fetched st3 + 1\<rparr>, cl',
                           (files3(path_xrefs num \<mapsto> Payload (JList xrefs)))
                             (path_xrefs_failed num := None))
                 | Inl err \<Rightarrow>
                     Some (st3\<lparr>failed := failed st3 + 1\<rparr>, cl',
                           write_failed (path_xrefs_failed num) err ''xrefs'' files3))
            | Some (Inl err, cl') \<Rightarrow>
                Some (st3\<lparr>failed := failed st3 + 1\<rparr>, cl',
                      write_failed (path_xrefs_failed num) err ''xrefs'' files3))"
    by (simp only: xrefs_step_absent [OF absent])
  show "\<forall>c. map_option (xrefs_view num)
                (xrefs_step e num (st3, cl3, files3(path_timeline num \<mapsto> c))) =
              map_option (xrefs_view num) (xrefs_step e num (st3, cl3, files3))"
  proof
    fix c
    from absent have absent': "\<not> path_exists (files3(path_timeline num \<mapsto> c)) (path_xrefs num)"
      by (simp add: path_exists_def path_defs)
    show "map_option (xrefs_view num)
                (xrefs_step e num (st3, cl3, files3(path_timeline num \<mapsto> c))) =
              map_option (xrefs_view num) (xrefs_step e num (st3, cl3, files3))"
      unfolding xrefs_step_absent [OF absent] xrefs_step_absent [OF absent']
      by (simp add: xrefs_view_def write_failed_def path_defs
          split: option.splits sum.splits prod.splits)
  qed
qed

lemma fetch_paginated_serves:
  assumes "length xs < 100"
  shows "fetch_paginated (serves (JList xs)) endpoint new_client =
           Some (Inr xs, new_client\<lparr>trace := [Get (page_url endpoint 1)]\<rparr>)"
  unfolding fetch_paginated_def using assms
  by (subst fetch_pages.simps) (simp add: fetch_serves)

theorem xrefs_refetch_timeline_witness:
  "path_exists main_and_timeline_done (path_timeline 1) \<and>
   process_item (serves (JList [ev_with_number])) 1 False False True True new_client
       main_and_timeline_done =
     Some (stats0\<lparr>skip_exists := 1, fetched := 1\<rparr>,
           new_client\<lparr>trace := [Get (page_url (timeline_endpoint 1) 1)]\<rparr>,
           (main_and_timeline_done(path_xrefs 1 \<mapsto>
              Payload (JList [JObj [(''event'', JStr ''cross-referenced''), (''from'', JNum 42),
                                    (''type'', JStr ''issue''), (''actor'', JStr ''alice''),
                                    (''date'', JStr ''2015-03-01T10:00:00Z'')]])))
             (path_xrefs_failed 1 := None))"
proof -
  have m: "\<not> path_exists main_and_timeline_done (path_404 1)"
      "\<not> path_exists main_and_timeline_done (path_skip 1)"
      "\<not> path_exists main_and_timeline_done (path_xrefs 1)"
    by (simp_all add: main_and_timeline_done_def path_exists_def path_defs)
  have t: "path_exists main_and_timeline_done (path_timeline 1)"
    by (simp add: main_and_timeline_done_def path_exists_def path_defs)
  have s1: "(if False then main_step (serves (JList [ev_with_number])) 1 (stats0, new_client, main_and_timeline_done)
             else Proceed (stats0, new_client, main_and_timeline_done))
            = Proceed (stats0, new_client, main_and_timeline_done)"
    by simp
  have mm: "False \<or> path_exists main_and_timeline_done (path_main 1)"
    by (simp add: main_and_timeline_done_def path_exists_def path_defs)
  have s2: "(if False then comments_step (serves (JList [ev_with_number])) 1 (stats0, new_client, main_and_timeline_done)
             else Some (stats0, new_client, main_and_timeline_done))
            = Some (stats0, new_client, main_and_timeline_done)"
    by simp
  have s3: "(if True then timeline_step (serves (JList [ev_with_number])) 1 (stats0, new_client, main_and_timeline_done)
             else Some (stats0, new_client, main_and_timeline_done))
            = Some (stats0\<lparr>skip_exists := 1\<rparr>, new_client, main_and_timeline_done)"
    using t by (simp add: timeline_step_def stats0_def)
  have x: "extract_xrefs [ev_with_number] =
             Inr [JObj [(''event'', JStr ''cross-referenced''), (''from'', JNum 42),
                        (''type'', JStr ''issue''), (''actor'', JStr ''alice''),
                        (''date'', JStr ''2015-03-01T10:00:00Z'')]]"
    by (simp add: extract_xrefs_def xref_of_event_def ev_with_number_def dict_get_def
        dict_get_default_def or_empty_dict_def)
  from xrefs_refetch_timeline [OF m s1 mm s2 s3]
  have "process_item (serves (JList [ev_with_number])) 1 False False True True new_client
       main_and_timeline_done =
     Some (stats0\<lparr>skip_exists := 1, fetched := 1\<rparr>,
           new_client\<lparr>trace := [Get (page_url (timeline_endpoint 1) 1)]\<rparr>,
           (main_and_timeline_done(path_xrefs 1 \<mapsto>
              Payload (JList [JObj [(''event'', JStr ''cross-referenced''), (''from'', JNum 42),
                                    (''type'', JStr ''issue''), (''actor'', JStr ''alice''),
                                    (''date'', JStr ''2015-03-01T10:00:00Z'')]])))
             (path_xrefs_failed 1 := None))"
    by (simp add: fetch_paginated_serves x stats0_def)
  with t show ?thesis by simp
qed

text \<open>
  C7 as stated fails: with the xrefs component requested and no xrefs success marker,
  but a not-found marker present, \<^verbatim>\<open>process_item\<close> returns without any request.
\<close>

theorem xrefs_not_fetched_after_terminal_marker:
  "\<not> path_exists [path_404 7 \<mapsto> Empty] (path_xrefs 7) \<and>
   process_item (serves (JList [ev_with_number])) 7 True True True True new_client
       [path_404 7 \<mapsto> Empty] =
     Some (stats0\<lparr>skip_404 := 1\<rparr>, new_client, [path_404 7 \<mapsto> Empty]) \<and>
   trace new_client = []"
  by (simp add: process_item_def path_exists_def path_defs new_client_def)

subsection \<open>Success and failure markers\<close>

lemma clears_same: "files' ok = files ok \<Longrightarrow> clears files files' ok bad"
  by (auto simp: clears_def path_exists_def)

lemma clears_pre:
  "files1 ok = files ok \<Longrightarrow> clears files1 files' ok bad \<Longrightarrow> clears files files' ok bad"
  by (simp add: clears_def path_exists_def)

lemma clears_post:
  "files' ok = files1 ok \<Longrightarrow> files' bad = files1 bad \<Longrightarrow>
   clears files files1 ok bad \<Longrightarrow> clears files files' ok bad"
  by (simp add: clears_def path_exists_def)

lemma main_step_proceed_clears:
  assumes "main_step e num (st, cl, files) = Proceed (st', cl', files')"
  shows "clears files files' (path_main num) (path_main_failed num)"
  using assms
  by (auto simp: main_step_def write_failed_def Let_def clears_def path_exists_def
      split: if_splits prod.splits sum.splits json.splits)

lemma main_step_return_frame:
  assumes "main_step e num (st, cl, files) = Return (st', cl', files')"
  shows "p \<noteq> path_main_failed num \<Longrightarrow> p \<noteq> path_404 num \<Longrightarrow> p \<noteq> path_skip num \<Longrightarrow>
         files' p = files p"
  using assms
  by (auto simp: main_step_def write_failed_def Let_def
      split: if_splits prod.splits sum.splits json.splits)

lemma comments_step_clears:
  assumes "comments_step e num (st, cl, files) = Some (st', cl', files')"
  shows "clears files files' (path_comments num) (path_comments_failed num)"
  using assms
  by (auto simp: comments_step_def write_failed_def clears_def path_exists_def path_defs
      split: if_splits option.splits sum.splits)

lemma timeline_step_clears:
  assumes "timeline_step e num (st, cl, files) = Some (st', cl', files')"
  shows "clears files files' (path_timeline num) (path_timeline_failed num)"
  using assms
  by (auto simp: timeline_step_def write_failed_def clears_def path_exists_def path_defs
      split: if_splits option.splits sum.splits)

lemma xrefs_step_clears:
  assumes "xrefs_step e num (st, cl, files) = Some (st', cl', files')"
  shows "clears files files' (path_xrefs num) (path_xrefs_failed num)"
  using assms
  by (auto simp: xrefs_step_def write_failed_def clears_def path_exists_def path_defs
      split: if_splits option.splits sum.splits)

lemma optional_steps_clears:
  assumes "optional_steps e num do_comments do_timeline do_xrefs (st, cl, files) = Some (st', cl', files')"
  shows "clears files files' (path_comments num) (path_comments_failed num)"
    and "clears files files' (path_timeline num) (path_timeline_failed num)"
    and "clears files files' (path_xrefs num) (path_xrefs_failed num)"
proof -
  obtain st2 cl2 files2 where
    s2: "(if do_comments then comments_step e num (st, cl, files) else Some (st, cl, files)) = Some (st2, cl2, files2)"
    using assms by (cases "if do_comments then comments_step e num (st, cl, files) else Some (st, cl, files)")
      (auto simp: optional_steps_def)
  obtain st3 cl3 files3 where
    s3: "(if do_timeline then timeline_step e num (st2, cl2, files2) else Some (st2, cl2, files2)) = Some (st3, cl3, files3)"
    using assms s2 by (cases "if do_timeline then timeline_step e num (st2, cl2, files2) else Some (st2, cl2, files2)")
      (auto simp: optional_steps_def)
  have s4: "(if do_xrefs then xrefs_step e num (st3, cl3, files3) else Some (st3, cl3, files3)) = Some (st', cl', files')"
    using assms s2 s3 by (simp add: optional_steps_def)
  have f2: "files2 p = files p" if "p \<noteq> path_comments num" "p \<noteq> path_comments_failed num" for p
    using s2 comments_step_frame(2) [OF _ that] by (cases do_comments) auto
  have f3: "files3 p = files2 p" if "p \<noteq> path_timeline num" "p \<noteq> path_timeline_failed num" for p
    using s3 timeline_step_frame(2) [OF _ that] by (cases do_timeline) auto
  have f4: "files' p = files3 p" if "p \<noteq> path_xrefs num" "p \<noteq> path_xrefs_failed num" for p
    using s4 xrefs_step_frame(2) [OF _ that] by (cases do_xrefs) auto
  have c2: "clears files files2 (path_comments num) (path_comments_failed num)"
    using s2 comments_step_clears by (cases do_comments) (auto simp: clears_same)
  have c3: "clears files2 files3 (path_timeline num) (path_timeline_failed num)"
    using s3 timeline_step_clears by (cases do_timeline) (auto simp: clears_same)
  have c4: "clears files3 files' (path_xrefs num) (path_xrefs_failed num)"
    using s4 xrefs_step_clears by (cases do_xrefs) (auto simp: clears_same)
  have "files' (path_comments num) = files2 (path_comments num)"
    and "files' (path_comments_failed num) = files2 (path_comments_failed num)"
    by (simp_all add: f3 f4 path_defs)
  then show "clears files files' (path_comments num) (path_comments_failed num)"
    using c2 by (rule clears_post)
  have "files2 (path_timeline num) = files (path_timeline num)"
    by (simp add: f2 path_defs)
  then have "clears files files3 (path_timeline num) (path_timeline_failed num)"
    using c3 by (rule clears_pre)
  moreover have "files' (path_timeline num) = files3 (path_timeline num)"
    and "files' (path_timeline_failed num) = files3 (path_timeline_failed num)"
    by (simp_all add: f4 path_defs)
  ultimately show "clears files files' (path_timeline num) (path_timeline_failed num)"
    by (simp add: clears_post)
  have "files3 (path_xrefs num) = files (path_xrefs num)"
    by (simp add: f2 f3 path_defs)
  then show "clears files files' (path_xrefs num) (path_xrefs_failed num)"
    using c4 by (rule clears_pre)
qed

lemma process_item_clears:
  assumes r: "process_item e num do_main do_comments do_timeline do_xrefs cl files = Some (st, cl', files')"
  shows "clears files files' (path_main num) (path_main_failed num) \<and>
         clears files files' (path_comments num) (path_comments_failed num) \<and>
         clears files files' (path_timeline num) (path_timeline_failed num) \<and>
         clears files files' (path_xrefs num) (path_xrefs_failed num)"
proof (cases "path_exists files (path_404 num) \<or> path_exists files (path_skip num)")
  case True
  with r have "files' = files"
    by (auto simp: process_item_def split: if_splits)
  then show ?thesis by (simp add: clears_same)
next
  case False
  show ?thesis
  proof (cases "if do_main then main_step e num (stats0, cl, files) else Proceed (stats0, cl, files)")
    case (Return s)
    with r False have s: "s = (st, cl', files')" and dm: do_main
      by (auto simp: process_item_def split: if_splits)
    from Return dm s have m: "main_step e num (stats0, cl, files) = Return (st, cl', files')"
      by simp
    have "files' (path_main num) = files (path_main num)"
      "files' (path_comments num) = files (path_comments num)"
      "files' (path_timeline num) = files (path_timeline num)"
      "files' (path_xrefs num) = files (path_xrefs num)"
      by (rule main_step_return_frame [OF m]; simp add: path_defs)+
    then show ?thesis by (simp add: clears_same)
  next
    case (Proceed s1)
    obtain st1 cl1 files1 where s1: "s1 = (st1, cl1, files1)"
      by (cases s1) auto
    have cm: "clears files files1 (path_main num) (path_main_failed num)"
      using Proceed s1 main_step_proceed_clears by (cases do_main) (auto simp: clears_same)
    have fm: "files1 p = files p" if "p \<noteq> path_main num" "p \<noteq> path_main_failed num" for p
      using Proceed s1 main_step_frame [OF _ that] by (cases do_main) auto
    show ?thesis
    proof (cases "(do_comments \<or> do_timeline \<or> do_xrefs) \<and> \<not> do_main
                   \<and> \<not> path_exists files1 (path_main num)")
      case True
      with r False Proceed s1 have "files' = files1"
        by (simp add: process_item_def)
      moreover have "files1 (path_comments num) = files (path_comments num)"
        "files1 (path_timeline num) = files (path_timeline num)"
        "files1 (path_xrefs num) = files (path_xrefs num)"
        by (simp_all add: fm path_defs)
      ultimately show ?thesis using cm by (simp add: clears_same)
    next
      case guard: False
      with r False Proceed s1
      have o: "optional_steps e num do_comments do_timeline do_xrefs (st1, cl1, files1) = Some (st, cl', files')"
        by (auto simp: process_item_def)
      have "files' (path_main num) = files1 (path_main num)"
        and "files' (path_main_failed num) = files1 (path_main_failed num)"
        by (rule optional_steps_frame(2) [OF o]; simp add: path_defs)+
      then have a: "clears files files' (path_main num) (path_main_failed num)"
        using cm by (rule clears_post)
      have "files1 (path_comments num) = files (path_comments num)"
        by (simp add: fm path_defs)
      then have b: "clears files files' (path_comments num) (path_comments_failed num)"
        using optional_steps_clears(1) [OF o] by (rule clears_pre)
      have "files1 (path_timeline num) = files (path_timeline num)"
        by (simp add: fm path_defs)
      then have c: "clears files files' (path_timeline num) (path_timeline_failed num)"
        using optional_steps_clears(2) [OF o] by (rule clears_pre)
      have "files1 (path_xrefs num) = files (path_xrefs num)"
        by (simp add: fm path_defs)
      then have d: "clears files files' (path_xrefs num) (path_xrefs_failed num)"
        using optional_steps_clears(3) [OF o] by (rule clears_pre)
      from a b c d show ?thesis by simp
    qed
  qed
qed








text \<open>
  C8. Whenever \<^verbatim>\<open>process_item\<close> returns, for each of the four components of the record:
  if the success marker did not exist before the call and exists after it, the failure
  marker of that component does not exist after the call. And whenever the fetch of a
  component succeeds (for the main component, with a record before the cutoff; for the
  xrefs, with an extraction that returns), its block writes the success marker and
  deletes the failure marker of that component.
\<close>

theorem success_clears_failure:
  "(\<forall>st cl' files'.
      process_item e num do_main do_comments do_timeline do_xrefs cl files = Some (st, cl', files') \<longrightarrow>
        clears files files' (path_main num) (path_main_failed num) \<and>
        clears files files' (path_comments num) (path_comments_failed num) \<and>
        clears files files' (path_timeline num) (path_timeline_failed num) \<and>
        clears files files' (path_xrefs num) (path_xrefs_failed num)) \<and>
   (\<not> path_exists files (path_main num) \<and> fetch e (main_endpoint num) cl = (Inr (JObj d), cl1) \<and>
    dict_get_default d ''created_at'' (JStr []) = JStr created_at \<and> \<not> CUTOFF_DATE \<le> created_at \<longrightarrow>
      (\<exists>payload. main_step e num (st0, cl, files) =
         Proceed (st0\<lparr>fetched := fetched st0 + 1\<rparr>, cl1,
                  (files(path_main num \<mapsto> Payload payload))(path_main_failed num := None)))) \<and>
   (\<not> path_exists files (path_comments num) \<and>
    fetch_paginated e (comments_endpoint num) cl = Some (Inr items, cl1) \<longrightarrow>
      comments_step e num (st0, cl, files) =
        Some (st0\<lparr>fetched := fetched st0 + 1\<rparr>, cl1,
              (files(path_comments num \<mapsto> Payload (JList items)))(path_comments_failed num := None))) \<and>
   (\<not> path_exists files (path_timeline num) \<and>
    fetch_paginated e (timeline_endpoint num) cl = Some (Inr items, cl1) \<longrightarrow>
      timeline_step e num (st0, cl, files) =
        Some (st0\<lparr>fetched := fetched st0 + 1\<rparr>, cl1,
              (files(path_timeline num \<mapsto> Payload (JList items)))(path_timeline_failed num := None))) \<and>
   (\<not> path_exists files (path_xrefs num) \<and>
    fetch_paginated e (timeline_endpoint num) cl = Some (Inr items, cl1) \<and>
    extract_xrefs items = Inr xrefs \<longrightarrow>
      xrefs_step e num (st0, cl, files) =
        Some (st0\<lparr>fetched := fetched st0 + 1\<rparr>, cl1,
              (files(path_xrefs num \<mapsto> Payload (JList xrefs)))(path_xrefs_failed num := None)))"
proof (intro conjI allI impI)
  fix st cl' files'
  assume r: "process_item e num do_main do_comments do_timeline do_xrefs cl files = Some (st, cl', files')"
  note c = process_item_clears [OF r]
  from c show "clears files files' (path_main num) (path_main_failed num)" by simp
  from c show "clears files files' (path_comments num) (path_comments_failed num)" by simp
  from c show "clears files files' (path_timeline num) (path_timeline_failed num)" by simp
  from c show "clears files files' (path_xrefs num) (path_xrefs_failed num)" by simp
next
  assume a: "\<not> path_exists files (path_main num) \<and> fetch e (main_endpoint num) cl = (Inr (JObj d), cl1) \<and>
    dict_get_default d ''created_at'' (JStr []) = JStr created_at \<and> \<not> CUTOFF_DATE \<le> created_at"
  then have "main_step e num (st0, cl, files) =
         Proceed (st0\<lparr>fetched := fetched st0 + 1\<rparr>, cl1,
                  (files(path_main num \<mapsto>
                     Payload (JObj (dict_set d ''_meta''
                       (JObj [(''type'', JStr (if dict_contains d ''pull_request'' then ''pr'' else ''issue''))])))))
                    (path_main_failed num := None))"
    by (simp add: main_step_dict)
  then show "\<exists>payload. main_step e num (st0, cl, files) =
         Proceed (st0\<lparr>fetched := fetched st0 + 1\<rparr>, cl1,
                  (files(path_main num \<mapsto> Payload payload))(path_main_failed num := None))"
    by blast
next
  assume "\<not> path_exists files (path_comments num) \<and>
    fetch_paginated e (comments_endpoint num) cl = Some (Inr items, cl1)"
  then show "comments_step e num (st0, cl, files) =
        Some (st0\<lparr>fetched := fetched st0 + 1\<rparr>, cl1,
              (files(path_comments num \<mapsto> Payload (JList items)))(path_comments_failed num := None))"
    by (simp add: comments_step_def)
next
  assume "\<not> path_exists files (path_timeline num) \<and>
    fetch_paginated e (timeline_endpoint num) cl = Some (Inr items, cl1)"
  then show "timeline_step e num (st0, cl, files) =
        Some (st0\<lparr>fetched := fetched st0 + 1\<rparr>, cl1,
              (files(path_timeline num \<mapsto> Payload (JList items)))(path_timeline_failed num := None))"
    by (simp add: timeline_step_def)
next
  assume "\<not> path_exists files (path_xrefs num) \<and>
    fetch_paginated e (timeline_endpoint num) cl = Some (Inr items, cl1) \<and>
    extract_xrefs items = Inr xrefs"
  then show "xrefs_step e num (st0, cl, files) =
        Some (st0\<lparr>fetched := fetched st0 + 1\<rparr>, cl1,
              (files(path_xrefs num \<mapsto> Payload (JList xrefs)))(path_xrefs_failed num := None))"
    by (simp add: xrefs_step_def)
qed

theorem success_clears_failure_witness:
  "path_exists comments_failed_before (path_comments_failed 1) \<and>
   \<not> path_exists comments_failed_before (path_comments 1) \<and>
   process_item (serves (JList [JStr ''first''])) 1 False True False False new_client
       comments_failed_before =
     Some (stats0\<lparr>fetched := 1\<rparr>,
           new_client\<lparr>trace := [Get (page_url (comments_endpoint 1) 1)]\<rparr>,
           (comments_failed_before(path_comments 1 \<mapsto> Payload (JList [JStr ''first''])))
             (path_comments_failed 1 := None)) \<and>
   \<not> path_exists ((comments_failed_before(path_comments 1 \<mapsto> Payload (JList [JStr ''first''])))
                    (path_comments_failed 1 := None)) (path_comments_failed 1) \<and>
   comments_step (serves (JList [JStr ''first''])) 1 (stats0, new_client, comments_failed_before) =
     Some (stats0\<lparr>fetched := 1\<rparr>,
           new_client\<lparr>trace := [Get (page_url (comments_endpoint 1) 1)]\<rparr>,
           (comments_failed_before(path_comments 1 \<mapsto> Payload (JList [JStr ''first''])))
             (path_comments_failed 1 := None))"
proof -
  have pre: "path_exists comments_failed_before (path_comments_failed 1)"
    "\<not> path_exists comments_failed_before (path_comments 1)"
    by (simp_all add: comments_failed_before_def path_exists_def path_defs)
  have run: "process_item (serves (JList [JStr ''first''])) 1 False True False False new_client
       comments_failed_before =
     Some (stats0\<lparr>fetched := 1\<rparr>,
           new_client\<lparr>trace := [Get (page_url (comments_endpoint 1) 1)]\<rparr>,
           (comments_failed_before(path_comments 1 \<mapsto> Payload (JList [JStr ''first''])))
             (path_comments_failed 1 := None))"
    by (simp add: process_item_def optional_steps_def comments_step_def fetch_paginated_serves
        comments_failed_before_def path_exists_def path_defs stats0_def)
  have fp: "fetch_paginated (serves (JList [JStr ''first''])) (comments_endpoint 1) new_client =
              Some (Inr [JStr ''first''], new_client\<lparr>trace := [Get (page_url (comments_endpoint 1) 1)]\<rparr>)"
    by (simp add: fetch_paginated_serves)
  note T = success_clears_failure
    [of "serves (JList [JStr ''first''])" 1 False True False False new_client comments_failed_before
        _ _ _ stats0 "[JStr ''first'']"]
  from T run
  have "clears comments_failed_before
          ((comments_failed_before(path_comments 1 \<mapsto> Payload (JList [JStr ''first''])))
             (path_comments_failed 1 := None))
          (path_comments 1) (path_comments_failed 1)"
    by blast
  moreover
  have "path_exists ((comments_failed_before(path_comments 1 \<mapsto> Payload (JList [JStr ''first''])))
                    (path_comments_failed 1 := None)) (path_comments 1)"
    by (simp add: path_exists_def path_defs)
  ultimately
  have gone: "\<not> path_exists ((comments_failed_before(path_comments 1 \<mapsto> Payload (JList [JStr ''first''])))
                    (path_comments_failed 1 := None)) (path_comments_failed 1)"
    using pre(2) unfolding clears_def by blast
  from T pre(2) fp
  have step: "comments_step (serves (JList [JStr ''first''])) 1 (stats0, new_client, comments_failed_before) =
     Some (stats0\<lparr>fetched := 1\<rparr>,
           new_client\<lparr>trace := [Get (page_url (comments_endpoint 1) 1)]\<rparr>,
           (comments_failed_before(path_comments 1 \<mapsto> Payload (JList [JStr ''first''])))
             (path_comments_failed 1 := None))"
    by (simp add: stats0_def)
  from pre run gone step show ?thesis by blast
qed




end
